theory Spec2Isabelle
  imports Complex_Main
begin

section \<open>The store of the coordinator\<close>

text \<open>
  The coordinator of \<^verbatim>\<open>src/vtq/coordinator/coordinator.py\<close> keeps three SQL tables:
  virtual queues, tasks and task errors. A table is the list of its rows, in insertion
  order. Integers are Python's unbounded ints. A timestamp is the number of seconds that
  \<^verbatim>\<open>time.time()\<close> returns; it is a real number here, so the rounding of the
  floating-point sum \<^verbatim>\<open>time.time() + delay_millis / 1000.0\<close> is not modelled.
  Every operation takes the reading of the clock it makes as an argument.
\<close>

record VirtualQueue =
  vq_name :: string
  vq_priority :: int
  bucket_name :: string
  bucket_weight :: int
  visibility_timeout :: real
  hidden :: bool

record model_Task =
  task_id :: string
  data :: string
  vqueue_name :: string
  priority :: int
  status :: int
  visible_at :: real
  queued_at :: real
  ended_at :: "real option"

record TaskError =
  err_task_id :: string
  error_messsage :: string
  happended_at :: real

record store =
  vqueues :: "VirtualQueue list"
  tasks :: "model_Task list"
  task_errors :: "TaskError list"

text \<open>The value \<^verbatim>\<open>Task(task.id, task.data)\<close> that \<^verbatim>\<open>receive\<close> hands to a consumer.\<close>

datatype Task = Task (id_of: string) (data_of: string)

text \<open>What \<^verbatim>\<open>configuration_for\<close> returns for a queue name; the fetcher is an argument.\<close>

record vq_config =
  cfg_priority :: int
  cfg_bucket_name :: string
  cfg_bucket_weight :: int
  cfg_visibility_timeout_seconds :: real

datatype error = NotImplementedError

definition INVISIBLE_TIMESTAMP_SECONDS :: real where
  "INVISIBLE_TIMESTAMP_SECONDS = 2 ^ 31 - 1"

subsection \<open>Status codes\<close>

text \<open>
  Modelled from the spec: the predicates \<^verbatim>\<open>is_unstarted\<close>, \<^verbatim>\<open>is_wip\<close>,
  \<^verbatim>\<open>is_succeeded\<close> and \<^verbatim>\<open>is_failed\<close> live in \<^verbatim>\<open>vtq.coordinator.task\<close> and
  \<^verbatim>\<open>vtq.model\<close>, which are not among the sources. The spec gives the codes:
  PENDING is below 10, LEASED is the distinguished value 50, SUCCEEDED and FAILED are
  two distinct codes from 100 on. The coordinator writes 50 for a lease, 100 in
  \<^verbatim>\<open>ack\<close> and 101 in \<^verbatim>\<open>nack\<close>, and its claim tests \<^verbatim>\<open>status < 10\<close>.
\<close>

definition is_unstarted :: "int \<Rightarrow> bool" where
  "is_unstarted s = (s < 10)"

definition is_wip :: "int \<Rightarrow> bool" where
  "is_wip s = (s = 50)"

definition is_succeeded :: "int \<Rightarrow> bool" where
  "is_succeeded s = (s = 100)"

definition is_failed :: "int \<Rightarrow> bool" where
  "is_failed s = (s = 101)"

text \<open>
  Modelled from the spec: the column defaults of \<^verbatim>\<open>vtq.model\<close> are not among the
  sources. A created task is PENDING with no end time and its \<^verbatim>\<open>queued_at\<close> is the
  creation time; a created queue is not hidden.
\<close>

definition DEFAULT_STATUS :: int where
  "DEFAULT_STATUS = 0"

definition DEFAULT_HIDDEN :: bool where
  "DEFAULT_HIDDEN = False"

section \<open>enqueue\<close>

text \<open>
  \<^verbatim>\<open>task_cls.create\<close>: the insert fails with the foreign-key error when no queue has
  the name (the result \<open>None\<close>); otherwise the row is appended. The id of the new
  row is chosen by the model layer and is an argument here.
\<close>

definition task_create ::
  "string \<Rightarrow> real \<Rightarrow> string \<Rightarrow> string \<Rightarrow> int \<Rightarrow> real \<Rightarrow> store \<Rightarrow> (model_Task \<times> store) option" where
  "task_create new_id now task_data vqueue priority' visible_at' st =
     (if filter (\<lambda>q. vq_name q = vqueue) (vqueues st) = [] then None
      else
        (let task = \<lparr>task_id = new_id, data = task_data, vqueue_name = vqueue,
                      priority = priority', status = DEFAULT_STATUS, visible_at = visible_at',
                      queued_at = now, ended_at = None\<rparr>
         in Some (task, st\<lparr>tasks := tasks st @ [task]\<rparr>)))"

definition enqueue_task_with_new_vq ::
  "(string \<Rightarrow> vq_config) \<Rightarrow> string \<Rightarrow> real \<Rightarrow> string \<Rightarrow> string \<Rightarrow> int \<Rightarrow> real \<Rightarrow> store
     \<Rightarrow> model_Task \<times> store" where
  "enqueue_task_with_new_vq configuration_for new_id now task_data vqueue priority' visible_at' st =
     (let vq_config = configuration_for vqueue;
          vq = \<lparr>vq_name = vqueue, vq_priority = cfg_priority vq_config,
                bucket_name = cfg_bucket_name vq_config,
                bucket_weight = cfg_bucket_weight vq_config,
                visibility_timeout = cfg_visibility_timeout_seconds vq_config,
                hidden = DEFAULT_HIDDEN\<rparr>;
          task = \<lparr>task_id = new_id, data = task_data, vqueue_name = vqueue,
                  priority = priority', status = DEFAULT_STATUS, visible_at = visible_at',
                  queued_at = now, ended_at = None\<rparr>
      in (task, st\<lparr>vqueues := vqueues st @ [vq], tasks := tasks st @ [task]\<rparr>))"

text \<open>
  \<^verbatim>\<open>visible_at = time.time() + delay_millis / 1000.0 if delay_millis else 0\<close>: the
  conditional expression binds weakest, so the value is 0 when \<^verbatim>\<open>delay_millis\<close> is 0.
  The notification on the channel does not touch the store and is left out.
\<close>

definition enqueue ::
  "(string \<Rightarrow> vq_config) \<Rightarrow> string \<Rightarrow> real \<Rightarrow> string \<Rightarrow> string \<Rightarrow> int \<Rightarrow> int \<Rightarrow> store
     \<Rightarrow> string \<times> store" where
  "enqueue configuration_for new_id now task_data vqueue priority' delay_millis st =
     (let visible_at' = (if delay_millis \<noteq> 0 then now + real_of_int delay_millis / 1000 else 0)
      in case task_create new_id now task_data vqueue priority' visible_at' st of
           Some (task, st') \<Rightarrow> (task_id task, st')
         | None \<Rightarrow>
             (let (task, st') = enqueue_task_with_new_vq configuration_for new_id now task_data
                                  vqueue priority' visible_at' st
              in (task_id task, st')))"

section \<open>receive\<close>

text \<open>The join of the task table with the queue table on the queue name.\<close>

definition joined :: "store \<Rightarrow> (model_Task \<times> VirtualQueue) list" where
  "joined st =
     concat (map (\<lambda>t. map (Pair t) (filter (\<lambda>q. vq_name q = vqueue_name t) (vqueues st)))
                 (tasks st))"

text \<open>\<^verbatim>\<open>where((~vq_cls.hidden) & (current_ts >= task_cls.visible_at))\<close>: no test of the status.\<close>

definition available_task_query :: "real \<Rightarrow> store \<Rightarrow> (model_Task \<times> VirtualQueue) list" where
  "available_task_query current_ts st =
     filter (\<lambda>(t, q). \<not> hidden q \<and> current_ts \<ge> visible_at t) (joined st)"

text \<open>SQL's \<^verbatim>\<open>max\<close>: NULL (\<open>None\<close>) over no rows.\<close>

fun sql_max :: "int list \<Rightarrow> int option" where
  "sql_max [] = None"
| "sql_max (x # xs) = (case sql_max xs of None \<Rightarrow> Some x | Some m \<Rightarrow> Some (max x m))"

definition max_vq_priority :: "real \<Rightarrow> store \<Rightarrow> int option" where
  "max_vq_priority current_ts st =
     sql_max (map (\<lambda>(t, q). vq_priority q) (available_task_query current_ts st))"

text \<open>A comparison with NULL holds for no row.\<close>

definition priority_layer_query :: "real \<Rightarrow> store \<Rightarrow> (model_Task \<times> VirtualQueue) list" where
  "priority_layer_query current_ts st =
     filter (\<lambda>(t, q). max_vq_priority current_ts st = Some (vq_priority q))
            (available_task_query current_ts st)"

text \<open>
  \<^verbatim>\<open>order_by(priority.desc(), queued_at.asc()).first()\<close>: the row that no other row
  precedes in that order. SQL leaves the order of rows that agree on both keys open; the
  model takes the earliest such row of the table.
\<close>

definition precedes :: "model_Task \<Rightarrow> model_Task \<Rightarrow> bool" where
  "precedes a b = (priority a > priority b \<or> (priority a = priority b \<and> queued_at a < queued_at b))"

fun order_first :: "(model_Task \<times> VirtualQueue) list \<Rightarrow> (model_Task \<times> VirtualQueue) option" where
  "order_first [] = None"
| "order_first (r # rs) =
     (case order_first rs of
        None \<Rightarrow> Some r
      | Some b \<Rightarrow> if precedes (fst b) (fst r) then Some b else Some r)"

text \<open>
  The conditional update of \<^verbatim>\<open>_read\<close>. \<^verbatim>\<open>vq_query\<close> is used as a scalar subquery:
  its first row, NULL when it has none.
\<close>

definition vq_query :: "string \<Rightarrow> store \<Rightarrow> string list" where
  "vq_query name st = map vq_name (filter (\<lambda>q. \<not> hidden q \<and> vq_name q = name) (vqueues st))"

definition claim_matches :: "real \<Rightarrow> model_Task \<Rightarrow> store \<Rightarrow> model_Task \<Rightarrow> bool" where
  "claim_matches current_ts task st r =
     (case vq_query (vqueue_name task) st of
        [] \<Rightarrow> False
      | n # _ \<Rightarrow> vqueue_name r = n \<and> task_id r = task_id task \<and> status r < 10
                 \<and> visible_at r \<le> current_ts)"

definition claim_update :: "real \<Rightarrow> model_Task \<times> VirtualQueue \<Rightarrow> store \<Rightarrow> store" where
  "claim_update current_ts row st =
     st\<lparr>tasks := map (\<lambda>r. if claim_matches current_ts (fst row) st r
                            then r\<lparr>status := 50, visible_at := visibility_timeout (snd row) + current_ts\<rparr>
                            else r)
                      (tasks st)\<rparr>"

text \<open>The number of rows the conditional update affects; \<^verbatim>\<open>_read\<close> does not look at it.\<close>

definition claim_rowcount :: "real \<Rightarrow> model_Task \<times> VirtualQueue \<Rightarrow> store \<Rightarrow> nat" where
  "claim_rowcount current_ts row st = length (filter (claim_matches current_ts (fst row) st) (tasks st))"

text \<open>The row that the first transaction of \<^verbatim>\<open>_read\<close> selects.\<close>

definition select_task :: "real \<Rightarrow> store \<Rightarrow> (model_Task \<times> VirtualQueue) option" where
  "select_task current_ts st = order_first (priority_layer_query current_ts st)"

text \<open>
  \<^verbatim>\<open>_read\<close>: select, return nothing when no row is selected, otherwise run the
  conditional update and return the selected task whatever the update did.
\<close>

definition read :: "real \<Rightarrow> store \<Rightarrow> Task option \<times> store" where
  "read current_ts st =
     (case select_task current_ts st of
        None \<Rightarrow> (None, st)
      | Some row \<Rightarrow> (Some (Task (task_id (fst row)) (data (fst row))), claim_update current_ts row st))"

text \<open>
  The loop of \<^verbatim>\<open>receive\<close>. Each call of \<^verbatim>\<open>_read\<close> reads the clock anew: the
  call made when \<open>k\<close> tasks have been collected reads \<open>clock k\<close>.
\<close>

function receive_loop ::
  "int \<Rightarrow> int \<Rightarrow> (nat \<Rightarrow> real) \<Rightarrow> store \<Rightarrow> Task list \<Rightarrow> (error + Task list) \<times> store" where
  "receive_loop max_number wait_time_seconds clock st tasks' =
     (if int (length tasks') < max_number then
        (case read (clock (length tasks')) st of
           (None, st') \<Rightarrow>
             if 0 < length tasks' \<or> wait_time_seconds \<le> 0 then (Inr tasks', st')
             else (Inl NotImplementedError, st')
         | (Some task, st') \<Rightarrow>
             receive_loop max_number wait_time_seconds clock st' (tasks' @ [task]))
      else (Inr tasks', st))"
  by pat_completeness auto
termination
  by (relation "measure (\<lambda>(m, w, c, s, ts). nat (m - int (length ts)))") auto

definition receive :: "int \<Rightarrow> int \<Rightarrow> (nat \<Rightarrow> real) \<Rightarrow> store \<Rightarrow> (error + Task list) \<times> store" where
  "receive max_number wait_time_seconds clock st =
     receive_loop max_number wait_time_seconds clock st []"

section \<open>ack, nack, requeue, retry\<close>

definition get_task_only_status :: "string \<Rightarrow> store \<Rightarrow> model_Task option" where
  "get_task_only_status tid st = find (\<lambda>r. task_id r = tid) (tasks st)"

text \<open>\<^verbatim>\<open>task.save()\<close>: the assigned columns of the row with the task's id are written.\<close>

definition save_terminal :: "string \<Rightarrow> int \<Rightarrow> real \<Rightarrow> store \<Rightarrow> store" where
  "save_terminal tid code now st =
     st\<lparr>tasks := map (\<lambda>r. if task_id r = tid
                            then r\<lparr>status := code, visible_at := INVISIBLE_TIMESTAMP_SECONDS,
                                   ended_at := Some now\<rparr>
                            else r)
                      (tasks st)\<rparr>"

definition ack :: "real \<Rightarrow> string \<Rightarrow> store \<Rightarrow> bool \<times> store" where
  "ack now tid st =
     (case get_task_only_status tid st of
        None \<Rightarrow> (False, st)
      | Some task \<Rightarrow>
          if is_succeeded (status task) then (True, st)
          else if \<not> is_wip (status task) then (False, st)
          else (True, save_terminal tid 100 now st))"

definition nack :: "real \<Rightarrow> string \<Rightarrow> string \<Rightarrow> store \<Rightarrow> bool \<times> store" where
  "nack current_ts tid error_message st =
     (case get_task_only_status tid st of
        None \<Rightarrow> (False, st)
      | Some task \<Rightarrow>
          if is_failed (status task) then (True, st)
          else if \<not> is_wip (status task) then (False, st)
          else
            (let st' = save_terminal tid 101 current_ts st
             in (True,
                 if error_message \<noteq> []
                 then st'\<lparr>task_errors := task_errors st' @
                            [\<lparr>err_task_id = tid, error_messsage = error_message,
                              happended_at = current_ts\<rparr>]\<rparr>
                 else st')))"

text \<open>
  \<^verbatim>\<open>requeue\<close> ends in a \<^verbatim>\<open># TODO\<close> for a task in progress: the function falls off
  its end and Python returns \<^verbatim>\<open>None\<close>, which is the result \<open>None\<close> here. The store is
  never written.
\<close>

definition requeue :: "string \<Rightarrow> store \<Rightarrow> bool option \<times> store" where
  "requeue tid st =
     (case get_task_only_status tid st of
        None \<Rightarrow> (Some False, st)
      | Some task \<Rightarrow>
          if is_unstarted (status task) then (Some True, st)
          else if \<not> is_wip (status task) then (Some False, st)
          else (None, st))"

text \<open>
  Modelled from the spec: \<^verbatim>\<open>retry\<close> only calls \<^verbatim>\<open>TaskQueue.retry\<close> of
  \<^verbatim>\<open>vtq.task_queue\<close>, which is not among the sources. The spec (state machine and
  error taxonomy): a task id that does not exist gives false; the precondition is
  \<^verbatim>\<open>status=FAILED\<close>, any other state gives false; the effect is \<^verbatim>\<open>status=PENDING\<close>,
  \<^verbatim>\<open>visible_at = now (+ delay)\<close>, and a TaskError is appended when a message is given.
\<close>

definition TaskQueue_retry :: "real \<Rightarrow> string \<Rightarrow> int \<Rightarrow> string \<Rightarrow> store \<Rightarrow> bool \<times> store" where
  "TaskQueue_retry now tid delayMillis error_message st =
     (case get_task_only_status tid st of
        None \<Rightarrow> (False, st)
      | Some task \<Rightarrow>
          if \<not> is_failed (status task) then (False, st)
          else
            (let st' = st\<lparr>tasks := map (\<lambda>r. if task_id r = tid
                                              then r\<lparr>status := DEFAULT_STATUS,
                                                     visible_at := now + real_of_int delayMillis / 1000\<rparr>
                                              else r)
                                        (tasks st)\<rparr>
             in (True,
                 if error_message \<noteq> []
                 then st'\<lparr>task_errors := task_errors st' @
                            [\<lparr>err_task_id = tid, error_messsage = error_message,
                              happended_at = now\<rparr>]\<rparr>
                 else st')))"

definition retry :: "real \<Rightarrow> string \<Rightarrow> int \<Rightarrow> string \<Rightarrow> store \<Rightarrow> bool \<times> store" where
  "retry now tid delayMillis error_message st = TaskQueue_retry now tid delayMillis error_message st"

section \<open>Runs and example stores\<close>

text \<open>
  The store that the \<open>k\<close>-th call of \<^verbatim>\<open>_read\<close> inside one \<^verbatim>\<open>receive\<close> sees:
  the store \<^verbatim>\<open>receive\<close> started from, after the \<open>k\<close> calls before it.
\<close>

primrec store_after :: "(nat \<Rightarrow> real) \<Rightarrow> store \<Rightarrow> nat \<Rightarrow> store" where
  "store_after clock st 0 = st"
| "store_after clock st (Suc k) = snd (read (clock k) (store_after clock st k))"

text \<open>Concrete stores on which the theorems below are evaluated.\<close>

definition empty_store :: store where
  "empty_store = \<lparr>vqueues = [], tasks = [], task_errors = []\<rparr>"

definition example_config :: "string \<Rightarrow> vq_config" where
  "example_config name = \<lparr>cfg_priority = 0, cfg_bucket_name = ''b'', cfg_bucket_weight = 1,
                            cfg_visibility_timeout_seconds = 1\<rparr>"

definition example_vq :: "string \<Rightarrow> int \<Rightarrow> VirtualQueue" where
  "example_vq name p = \<lparr>vq_name = name, vq_priority = p, bucket_name = ''b'', bucket_weight = 1,
                         visibility_timeout = 1, hidden = False\<rparr>"

definition example_task :: "string \<Rightarrow> string \<Rightarrow> int \<Rightarrow> int \<Rightarrow> real \<Rightarrow> real \<Rightarrow> model_Task" where
  "example_task tid vq p s v qa = \<lparr>task_id = tid, data = ''x'', vqueue_name = vq, priority = p,
                                    status = s, visible_at = v, queued_at = qa, ended_at = None\<rparr>"

definition example_store :: "model_Task list \<Rightarrow> store" where
  "example_store ts = \<lparr>vqueues = [example_vq ''q'' 0], tasks = ts, task_errors = []\<rparr>"

definition two_queue_store :: store where
  "two_queue_store =
     \<lparr>vqueues = [example_vq ''low'' 5, example_vq ''high'' 10],
      tasks = [example_task ''b1'' ''low'' 90 0 0 1, example_task ''a1'' ''high'' 20 0 0 3,
               example_task ''a2'' ''high'' 70 0 0 4, example_task ''a3'' ''high'' 70 0 0 2],
      task_errors = []\<rparr>"

declare receive_loop.simps [simp del]

section \<open>Selection\<close>

lemma sql_max_None: "sql_max xs = None \<longleftrightarrow> xs = []"
  by (cases xs) (auto split: option.splits)

lemma sql_max_Some: "sql_max xs = Some m \<Longrightarrow> m \<in> set xs \<and> (\<forall>x\<in>set xs. x \<le> m)"
  by (induction xs arbitrary: m) (auto split: option.splits simp: sql_max_None max_def)

lemma order_first_None: "order_first rs = None \<longleftrightarrow> rs = []"
  by (cases rs) (auto split: option.splits)

lemma order_first_mem: "order_first rs = Some b \<Longrightarrow> b \<in> set rs"
  by (induction rs arbitrary: b) (auto split: option.splits if_splits)

lemma precedes_irrefl: "\<not> precedes a a"
  by (simp add: precedes_def)

lemma precedes_asym: "precedes a b \<Longrightarrow> \<not> precedes b a"
  unfolding precedes_def by linarith

lemma precedes_neg_trans: "\<not> precedes x c \<Longrightarrow> \<not> precedes c r \<Longrightarrow> \<not> precedes x r"
  unfolding precedes_def by linarith

lemma order_first_best:
  "order_first rs = Some b \<Longrightarrow> \<forall>r\<in>set rs. \<not> precedes (fst r) (fst b)"
proof (induction rs arbitrary: b)
  case Nil
  then show ?case by simp
next
  case (Cons r rs)
  show ?case
  proof (cases "order_first rs")
    case None
    then have "rs = []" by (simp add: order_first_None)
    with Cons.prems show ?thesis by (simp add: precedes_irrefl)
  next
    case (Some c)
    have ih: "\<forall>x\<in>set rs. \<not> precedes (fst x) (fst c)"
      using Cons.IH [OF Some] .
    show ?thesis
    proof (cases "precedes (fst c) (fst r)")
      case True
      with Some Cons.prems have "b = c" by simp
      with ih precedes_asym [OF True] show ?thesis by simp
    next
      case False
      with Some Cons.prems have "b = r" by simp
      with ih False show ?thesis
        using precedes_irrefl [of "fst r"] precedes_neg_trans [of _ "fst c" "fst r"] by auto
    qed
  qed
qed

lemma joined_iff:
  "(t, q) \<in> set (joined st) \<longleftrightarrow> t \<in> set (tasks st) \<and> q \<in> set (vqueues st) \<and> vq_name q = vqueue_name t"
  by (auto simp: joined_def)

lemma available_iff:
  "(t, q) \<in> set (available_task_query now st) \<longleftrightarrow>
     t \<in> set (tasks st) \<and> q \<in> set (vqueues st) \<and> vq_name q = vqueue_name t
     \<and> \<not> hidden q \<and> visible_at t \<le> now"
  by (auto simp: available_task_query_def joined_iff)

lemma layer_iff:
  "(t, q) \<in> set (priority_layer_query now st) \<longleftrightarrow>
     (t, q) \<in> set (available_task_query now st) \<and> max_vq_priority now st = Some (vq_priority q)"
  by (auto simp: priority_layer_query_def)

lemma max_vq_priority_upper:
  assumes "max_vq_priority now st = Some m" and "(t, q) \<in> set (available_task_query now st)"
  shows "vq_priority q \<le> m"
proof -
  have "vq_priority q \<in> set (map (\<lambda>(t, q). vq_priority q) (available_task_query now st))"
    using assms(2) by force
  with sql_max_Some [OF assms(1) [unfolded max_vq_priority_def]] show ?thesis by blast
qed

lemma read_Some:
  "read now st = (Some task, st') \<Longrightarrow>
   \<exists>t q. select_task now st = Some (t, q) \<and> task = Task (task_id t) (data t)
        \<and> st' = claim_update now (t, q) st"
  by (auto simp: read_def split: option.splits)


lemma read_top_layer:
  assumes "fst (read now st) = Some task"
  shows "\<exists>t q. select_task now st = Some (t, q) \<and> task = Task (task_id t) (data t)
           \<and> t \<in> set (tasks st) \<and> q \<in> set (vqueues st) \<and> vq_name q = vqueue_name t
           \<and> \<not> hidden q \<and> visible_at t \<le> now
           \<and> max_vq_priority now st = Some (vq_priority q)
           \<and> (\<forall>t'\<in>set (tasks st). \<forall>q'\<in>set (vqueues st).
                 vq_name q' = vqueue_name t' \<and> \<not> hidden q' \<and> visible_at t' \<le> now
                 \<longrightarrow> vq_priority q' \<le> vq_priority q)"
proof -
  from assms have "read now st = (Some task, snd (read now st))"
    by (metis prod.collapse)
  from read_Some [OF this] obtain t q where
    sel: "select_task now st = Some (t, q)" and task: "task = Task (task_id t) (data t)"
    by blast
  have "(t, q) \<in> set (priority_layer_query now st)"
    using sel by (simp add: select_task_def order_first_mem)
  then have av: "(t, q) \<in> set (available_task_query now st)"
    and mx: "max_vq_priority now st = Some (vq_priority q)"
    by (simp_all add: layer_iff)
  have "vq_priority q' \<le> vq_priority q"
    if "t' \<in> set (tasks st)" "q' \<in> set (vqueues st)" "vq_name q' = vqueue_name t'"
       "\<not> hidden q'" "visible_at t' \<le> now" for t' q'
    using max_vq_priority_upper [OF mx, of t' q'] that by (simp add: available_iff)
  with sel task av mx show ?thesis
    by (auto simp: available_iff)
qed

lemma read_pick_order:
  assumes "fst (read now st) = Some task"
  shows "\<exists>t q. select_task now st = Some (t, q) \<and> task = Task (task_id t) (data t)
           \<and> (\<forall>t'\<in>set (tasks st). \<forall>q'\<in>set (vqueues st).
                 vq_name q' = vqueue_name t' \<and> \<not> hidden q' \<and> visible_at t' \<le> now
                 \<and> vq_priority q' = vq_priority q
                 \<longrightarrow> priority t' \<le> priority t
                     \<and> (priority t' = priority t \<longrightarrow> queued_at t \<le> queued_at t'))"
proof -
  from assms have "read now st = (Some task, snd (read now st))"
    by (metis prod.collapse)
  from read_Some [OF this] obtain t q where
    sel: "select_task now st = Some (t, q)" and task: "task = Task (task_id t) (data t)"
    by blast
  have mem: "(t, q) \<in> set (priority_layer_query now st)"
    using sel by (simp add: select_task_def order_first_mem)
  then have mx: "max_vq_priority now st = Some (vq_priority q)"
    by (simp add: layer_iff)
  have best: "\<forall>r\<in>set (priority_layer_query now st). \<not> precedes (fst r) t"
    using order_first_best [OF sel [unfolded select_task_def]] by simp
  have "priority t' \<le> priority t \<and> (priority t' = priority t \<longrightarrow> queued_at t \<le> queued_at t')"
    if "t' \<in> set (tasks st)" "q' \<in> set (vqueues st)" "vq_name q' = vqueue_name t'"
       "\<not> hidden q'" "visible_at t' \<le> now" "vq_priority q' = vq_priority q" for t' q'
  proof -
    have "(t', q') \<in> set (priority_layer_query now st)"
      using that mx by (simp add: layer_iff available_iff)
    with best have "\<not> precedes t' t" by force
    then show ?thesis by (auto simp: precedes_def)
  qed
  with sel task show ?thesis by blast
qed

section \<open>The loop of receive\<close>


lemma receive_loop_steps:
  assumes "receive_loop m w clock s acc = (Inr res, s')"
    and "s = store_after clock st (length acc)"
    and "\<forall>k<length acc. fst (read (clock k) (store_after clock st k)) = Some (acc ! k)"
  shows "\<forall>k<length res. fst (read (clock k) (store_after clock st k)) = Some (res ! k)"
  using assms
proof (induction m w clock s acc rule: receive_loop.induct)
  case (1 m w clock s acc)
  show ?case
  proof (cases "int (length acc) < m")
    case False
    with "1.prems"(1) have res: "res = acc" by (simp add: receive_loop.simps [of m w clock s acc])
    show ?thesis unfolding res by (rule "1.prems"(3))
  next
    case True
    obtain r s1 where rd: "read (clock (length acc)) s = (r, s1)" by (cases "read (clock (length acc)) s")
    show ?thesis
    proof (cases r)
      case None
      with True rd "1.prems"(1) have res: "res = acc"
        by (auto simp: receive_loop.simps [of m w clock s acc] split: if_splits)
      show ?thesis unfolding res by (rule "1.prems"(3))
    next
      case (Some t)
      with True rd "1.prems"(1) have run: "receive_loop m w clock s1 (acc @ [t]) = (Inr res, s')"
        by (simp add: receive_loop.simps [of m w clock s acc])
      have s1: "s1 = store_after clock st (length (acc @ [t]))"
        using rd "1.prems"(2) by simp
      have "\<forall>k<length (acc @ [t]). fst (read (clock k) (store_after clock st k)) = Some ((acc @ [t]) ! k)"
      proof (intro allI impI)
        fix k assume "k < length (acc @ [t])"
        then consider "k < length acc" | "k = length acc" by fastforce
        then show "fst (read (clock k) (store_after clock st k)) = Some ((acc @ [t]) ! k)"
        proof cases
          case 1
          then show ?thesis using "1.prems"(3) by (simp add: nth_append)
        next
          case 2
          then show ?thesis using rd Some "1.prems"(2) by simp
        qed
      qed
      from "1.IH" [OF True rd [symmetric] Some run s1 this] show ?thesis .
    qed
  qed
qed



lemma receive_steps:
  assumes "receive m w clock st = (Inr res, st')" and "k < length res"
  shows "fst (read (clock k) (store_after clock st k)) = Some (res ! k)"
  using receive_loop_steps [of m w clock st "[]" res st' st] assms
  by (simp add: receive_def)


section \<open>Evaluation on concrete stores\<close>

lemmas eval_defs = receive_def receive_loop.simps read_def select_task_def priority_layer_query_def
  max_vq_priority_def available_task_query_def joined_def claim_update_def claim_matches_def
  vq_query_def precedes_def example_store_def example_task_def example_vq_def two_queue_store_def
  empty_store_def claim_rowcount_def

section \<open>Priority layering and pick order\<close>

text \<open>
  Claim C2 (strict priority layering). Every task that \<^verbatim>\<open>receive\<close> returns was selected
  by a call of \<^verbatim>\<open>_read\<close>; the \<open>k\<close>-th returned task was selected in the store
  \<open>store_after clock st k\<close> at the time \<open>clock k\<close>. It belongs to a queue that is not
  hidden, it is due, the priority of its queue is the maximum priority over the
  non-hidden queues with due tasks, and no non-hidden queue with a due task (PENDING or
  not) has a higher priority. So no task of a lower-priority queue is returned while a
  higher-priority queue has a due task.
\<close>

theorem receive_strict_priority_layering:
  assumes "receive m w clock st = (Inr res, st')" and "k < length res"
  shows "\<exists>t q. select_task (clock k) (store_after clock st k) = Some (t, q)
           \<and> res ! k = Task (task_id t) (data t)
           \<and> t \<in> set (tasks (store_after clock st k))
           \<and> q \<in> set (vqueues (store_after clock st k))
           \<and> vq_name q = vqueue_name t \<and> \<not> hidden q \<and> visible_at t \<le> clock k
           \<and> max_vq_priority (clock k) (store_after clock st k) = Some (vq_priority q)
           \<and> (\<forall>t'\<in>set (tasks (store_after clock st k)). \<forall>q'\<in>set (vqueues (store_after clock st k)).
                 vq_name q' = vqueue_name t' \<and> \<not> hidden q' \<and> visible_at t' \<le> clock k
                 \<longrightarrow> vq_priority q' \<le> vq_priority q)"
  by (rule read_top_layer [OF receive_steps [OF assms]])

theorem receive_strict_priority_layering_witness:
  "receive 1 0 (\<lambda>_. 5) two_queue_store =
     (Inr [Task ''a3'' ''x''],
      two_queue_store\<lparr>tasks := [example_task ''b1'' ''low'' 90 0 0 1, example_task ''a1'' ''high'' 20 0 0 3,
               example_task ''a2'' ''high'' 70 0 0 4, example_task ''a3'' ''high'' 70 50 6 2]\<rparr>)
   \<and> (\<exists>t q. select_task 5 two_queue_store = Some (t, q)
           \<and> Task ''a3'' ''x'' = Task (task_id t) (data t)
           \<and> max_vq_priority 5 two_queue_store = Some (vq_priority q)
           \<and> (\<forall>t'\<in>set (tasks two_queue_store). \<forall>q'\<in>set (vqueues two_queue_store).
                 vq_name q' = vqueue_name t' \<and> \<not> hidden q' \<and> visible_at t' \<le> 5
                 \<longrightarrow> vq_priority q' \<le> vq_priority q))"
proof -
  have run: "receive 1 0 (\<lambda>_. 5) two_queue_store =
     (Inr [Task ''a3'' ''x''],
      two_queue_store\<lparr>tasks := [example_task ''b1'' ''low'' 90 0 0 1, example_task ''a1'' ''high'' 20 0 0 3,
               example_task ''a2'' ''high'' 70 0 0 4, example_task ''a3'' ''high'' 70 50 6 2]\<rparr>)"
    by (simp add: eval_defs)
  have k: "(0::nat) < length [Task ''a3'' ''x'']" by simp
  from receive_strict_priority_layering [OF run k] run show ?thesis
    by (simp only: store_after.simps nth_Cons_0) blast
qed

text \<open>
  Claim C6 (pick order inside the layer). The source has no bucket draw yet, so the
  selected task is the first one in the order (priority descending, \<^verbatim>\<open>queued_at\<close>
  ascending) among all candidates of the top priority layer. Whichever bucket the
  selected task's queue is in, the task has the highest priority among the candidates of
  that bucket in the layer, and among those of equal priority the earliest
  \<^verbatim>\<open>queued_at\<close>. A candidate is a due task of a non-hidden queue.
\<close>

theorem receive_in_layer_pick_order:
  assumes "receive m w clock st = (Inr res, st')" and "k < length res"
  shows "\<exists>t q. select_task (clock k) (store_after clock st k) = Some (t, q)
           \<and> res ! k = Task (task_id t) (data t)
           \<and> (\<forall>t'\<in>set (tasks (store_after clock st k)). \<forall>q'\<in>set (vqueues (store_after clock st k)).
                 vq_name q' = vqueue_name t' \<and> \<not> hidden q' \<and> visible_at t' \<le> clock k
                 \<and> vq_priority q' = vq_priority q \<and> bucket_name q' = bucket_name q
                 \<longrightarrow> priority t' \<le> priority t
                     \<and> (priority t' = priority t \<longrightarrow> queued_at t \<le> queued_at t'))"
proof -
  from read_pick_order [OF receive_steps [OF assms]] obtain t q where
    sel: "select_task (clock k) (store_after clock st k) = Some (t, q)"
    and task: "res ! k = Task (task_id t) (data t)"
    and best: "\<forall>t'\<in>set (tasks (store_after clock st k)). \<forall>q'\<in>set (vqueues (store_after clock st k)).
                 vq_name q' = vqueue_name t' \<and> \<not> hidden q' \<and> visible_at t' \<le> clock k
                 \<and> vq_priority q' = vq_priority q
                 \<longrightarrow> priority t' \<le> priority t
                     \<and> (priority t' = priority t \<longrightarrow> queued_at t \<le> queued_at t')"
    by blast
  from best have "\<forall>t'\<in>set (tasks (store_after clock st k)). \<forall>q'\<in>set (vqueues (store_after clock st k)).
                 vq_name q' = vqueue_name t' \<and> \<not> hidden q' \<and> visible_at t' \<le> clock k
                 \<and> vq_priority q' = vq_priority q \<and> bucket_name q' = bucket_name q
                 \<longrightarrow> priority t' \<le> priority t
                     \<and> (priority t' = priority t \<longrightarrow> queued_at t \<le> queued_at t')"
    by blast
  with sel task show ?thesis by blast
qed

theorem receive_in_layer_pick_order_witness:
  "receive 2 0 (\<lambda>_. 5) two_queue_store =
     (Inr [Task ''a3'' ''x'', Task ''a2'' ''x''],
      two_queue_store\<lparr>tasks := [example_task ''b1'' ''low'' 90 0 0 1, example_task ''a1'' ''high'' 20 0 0 3,
               example_task ''a2'' ''high'' 70 50 6 4, example_task ''a3'' ''high'' 70 50 6 2]\<rparr>)
   \<and> (\<exists>t q. select_task 5 two_queue_store = Some (t, q)
           \<and> Task ''a3'' ''x'' = Task (task_id t) (data t)
           \<and> (\<forall>t'\<in>set (tasks two_queue_store). \<forall>q'\<in>set (vqueues two_queue_store).
                 vq_name q' = vqueue_name t' \<and> \<not> hidden q' \<and> visible_at t' \<le> 5
                 \<and> vq_priority q' = vq_priority q \<and> bucket_name q' = bucket_name q
                 \<longrightarrow> priority t' \<le> priority t
                     \<and> (priority t' = priority t \<longrightarrow> queued_at t \<le> queued_at t')))"
proof -
  have run: "receive 2 0 (\<lambda>_. 5) two_queue_store =
     (Inr [Task ''a3'' ''x'', Task ''a2'' ''x''],
      two_queue_store\<lparr>tasks := [example_task ''b1'' ''low'' 90 0 0 1, example_task ''a1'' ''high'' 20 0 0 3,
               example_task ''a2'' ''high'' 70 50 6 4, example_task ''a3'' ''high'' 70 50 6 2]\<rparr>)"
    by (simp add: eval_defs)
  have k: "(0::nat) < length [Task ''a3'' ''x'', Task ''a2'' ''x'']" by simp
  from receive_in_layer_pick_order [OF run k] have
    "\<exists>t q. select_task 5 two_queue_store = Some (t, q)
           \<and> Task ''a3'' ''x'' = Task (task_id t) (data t)
           \<and> (\<forall>t'\<in>set (tasks two_queue_store). \<forall>q'\<in>set (vqueues two_queue_store).
                 vq_name q' = vqueue_name t' \<and> \<not> hidden q' \<and> visible_at t' \<le> 5
                 \<and> vq_priority q' = vq_priority q \<and> bucket_name q' = bucket_name q
                 \<longrightarrow> priority t' \<le> priority t
                     \<and> (priority t' = priority t \<longrightarrow> queued_at t \<le> queued_at t'))"
    by (simp only: store_after.simps nth_Cons_0)
  with run show ?thesis by (rule conjI)
qed

section \<open>The length of the result\<close>



section \<open>Acknowledgements\<close>





text \<open>
  Claim C4 (error discipline). For an id that no task has, \<^verbatim>\<open>ack\<close>, \<^verbatim>\<open>nack\<close>,
  \<^verbatim>\<open>requeue\<close> and \<^verbatim>\<open>retry\<close> return false. For a task whose state does not permit
  the transition they return false: \<^verbatim>\<open>ack\<close> on PENDING or FAILED, \<^verbatim>\<open>nack\<close> on
  PENDING or SUCCEEDED, \<^verbatim>\<open>requeue\<close> on a terminal task, \<^verbatim>\<open>retry\<close> on a task that has
  not failed. \<^verbatim>\<open>ack\<close> on SUCCEEDED and \<^verbatim>\<open>nack\<close> on FAILED return true. In every one
  of these cases the store is returned as it was, and since each operation is a total
  function with a boolean result here, none raises. \<^verbatim>\<open>retry\<close> is the part modelled
  from the spec.
\<close>

theorem error_discipline:
  "(get_task_only_status tid st = None \<longrightarrow>
      ack now tid st = (False, st) \<and> nack now tid msg st = (False, st)
      \<and> requeue tid st = (Some False, st) \<and> retry now tid delay msg st = (False, st))
   \<and> (get_task_only_status tid st = Some task \<longrightarrow>
        (\<not> is_succeeded (status task) \<and> \<not> is_wip (status task) \<longrightarrow> ack now tid st = (False, st))
      \<and> (status task < 10 \<or> status task = 101 \<longrightarrow> ack now tid st = (False, st))
      \<and> (\<not> is_failed (status task) \<and> \<not> is_wip (status task) \<longrightarrow> nack now tid msg st = (False, st))
      \<and> (status task < 10 \<or> status task = 100 \<longrightarrow> nack now tid msg st = (False, st))
      \<and> (\<not> is_unstarted (status task) \<and> \<not> is_wip (status task) \<longrightarrow> requeue tid st = (Some False, st))
      \<and> (status task = 100 \<or> status task = 101 \<longrightarrow> requeue tid st = (Some False, st))
      \<and> (\<not> is_failed (status task) \<longrightarrow> retry now tid delay msg st = (False, st))
      \<and> (status task = 100 \<longrightarrow> ack now tid st = (True, st))
      \<and> (status task = 101 \<longrightarrow> nack now tid msg st = (True, st)))"
  by (auto simp: ack_def nack_def requeue_def retry_def TaskQueue_retry_def
        is_succeeded_def is_wip_def is_failed_def is_unstarted_def)

theorem error_discipline_witness:
  "ack 7 ''zz'' (example_store [example_task ''t1'' ''q'' 50 0 1 0]) =
     (False, example_store [example_task ''t1'' ''q'' 50 0 1 0])
   \<and> ack 7 ''t1'' (example_store [example_task ''t1'' ''q'' 50 0 1 0]) =
     (False, example_store [example_task ''t1'' ''q'' 50 0 1 0])
   \<and> nack 7 ''t1'' ''m'' (example_store [example_task ''t1'' ''q'' 50 100 1 0]) =
     (False, example_store [example_task ''t1'' ''q'' 50 100 1 0])
   \<and> ack 7 ''t1'' (example_store [example_task ''t1'' ''q'' 50 100 1 0]) =
     (True, example_store [example_task ''t1'' ''q'' 50 100 1 0])
   \<and> nack 7 ''t1'' ''m'' (example_store [example_task ''t1'' ''q'' 50 101 1 0]) =
     (True, example_store [example_task ''t1'' ''q'' 50 101 1 0])
   \<and> requeue ''t1'' (example_store [example_task ''t1'' ''q'' 50 101 1 0]) =
     (Some False, example_store [example_task ''t1'' ''q'' 50 101 1 0])
   \<and> retry 7 ''t1'' 0 ''m'' (example_store [example_task ''t1'' ''q'' 50 0 1 0]) =
     (False, example_store [example_task ''t1'' ''q'' 50 0 1 0])"
proof -
  have none: "get_task_only_status ''zz'' (example_store [example_task ''t1'' ''q'' 50 0 1 0]) = None"
    by (simp add: get_task_only_status_def example_store_def example_task_def)
  have pending: "get_task_only_status ''t1'' (example_store [example_task ''t1'' ''q'' 50 0 1 0]) =
      Some (example_task ''t1'' ''q'' 50 0 1 0)"
    by (simp add: get_task_only_status_def example_store_def example_task_def)
  have succeeded: "get_task_only_status ''t1'' (example_store [example_task ''t1'' ''q'' 50 100 1 0]) =
      Some (example_task ''t1'' ''q'' 50 100 1 0)"
    by (simp add: get_task_only_status_def example_store_def example_task_def)
  have failed: "get_task_only_status ''t1'' (example_store [example_task ''t1'' ''q'' 50 101 1 0]) =
      Some (example_task ''t1'' ''q'' 50 101 1 0)"
    by (simp add: get_task_only_status_def example_store_def example_task_def)
  have st: "status (example_task ''t1'' ''q'' 50 0 1 0) = 0"
    "status (example_task ''t1'' ''q'' 50 100 1 0) = 100"
    "status (example_task ''t1'' ''q'' 50 101 1 0) = 101"
    by (simp_all add: example_task_def)
  show ?thesis
    using error_discipline [where tid = "''zz''" and st = "example_store [example_task ''t1'' ''q'' 50 0 1 0]"
       and now = 7 and msg = "''m''" and delay = 0]
    error_discipline [where tid = "''t1''" and st = "example_store [example_task ''t1'' ''q'' 50 0 1 0]"
       and task = "example_task ''t1'' ''q'' 50 0 1 0" and now = 7 and msg = "''m''" and delay = 0]
    error_discipline [where tid = "''t1''" and st = "example_store [example_task ''t1'' ''q'' 50 100 1 0]"
       and task = "example_task ''t1'' ''q'' 50 100 1 0" and now = 7 and msg = "''m''" and delay = 0]
    error_discipline [where tid = "''t1''" and st = "example_store [example_task ''t1'' ''q'' 50 101 1 0]"
       and task = "example_task ''t1'' ''q'' 50 101 1 0" and now = 7 and msg = "''m''" and delay = 0]
    by (simp add: none pending succeeded failed st is_failed_def)
qed

section \<open>Where the source falls short of the claims\<close>

text \<open>
  Claim C8. \<^verbatim>\<open>requeue\<close> of a LEASED task should make it PENDING, due at once, and
  return true. The source stops at its \<^verbatim>\<open># TODO\<close>: for the leased task \<open>t1\<close> the
  result is Python's \<^verbatim>\<open>None\<close>, not a boolean, and the store is the one given.
\<close>

theorem requeue_leased_returns_none:
  "requeue ''t1'' (example_store [example_task ''t1'' ''q'' 50 50 1 0]) =
     (None, example_store [example_task ''t1'' ''q'' 50 50 1 0])"
  by (simp add: requeue_def get_task_only_status_def example_store_def example_task_def
        is_unstarted_def is_wip_def)

text \<open>
  Claim C7. With nothing to select and no wait, \<^verbatim>\<open>receive\<close> returns the empty list.
  With a positive \<^verbatim>\<open>wait_time_seconds\<close> it should wait and then return; the source
  raises \<^verbatim>\<open>NotImplementedError\<close> in the place of the wait.
\<close>

theorem receive_wait_raises:
  "receive 1 0 clock empty_store = (Inr [], empty_store)
   \<and> receive 1 5 clock empty_store = (Inl NotImplementedError, empty_store)"
  by (simp add: eval_defs)

text \<open>
  Claim C1. A task should be returned only when the conditional update claimed it. The
  selection does not test the status and \<^verbatim>\<open>_read\<close> does not look at the number of
  rows its update affected: for the task \<open>t1\<close>, LEASED with a lease that ran out at time
  1, the update at time 2 affects no row, the store stays as it was, and \<^verbatim>\<open>_read\<close>
  returns the task all the same; \<^verbatim>\<open>receive(2)\<close> returns it twice.
\<close>

theorem read_returns_unclaimed_task:
  "select_task 2 (example_store [example_task ''t1'' ''q'' 50 50 1 0])
     = Some (example_task ''t1'' ''q'' 50 50 1 0, example_vq ''q'' 0)
   \<and> claim_rowcount 2 (example_task ''t1'' ''q'' 50 50 1 0, example_vq ''q'' 0)
        (example_store [example_task ''t1'' ''q'' 50 50 1 0]) = 0
   \<and> read 2 (example_store [example_task ''t1'' ''q'' 50 50 1 0])
     = (Some (Task ''t1'' ''x''), example_store [example_task ''t1'' ''q'' 50 50 1 0])
   \<and> receive 2 0 (\<lambda>_. 2) (example_store [example_task ''t1'' ''q'' 50 50 1 0])
     = (Inr [Task ''t1'' ''x'', Task ''t1'' ''x''], example_store [example_task ''t1'' ''q'' 50 50 1 0])"
  by (simp add: eval_defs)

text \<open>
  Claim C3. A task is enqueued at time 0 into a new queue with a visibility timeout of
  1 second and leased by \<^verbatim>\<open>receive\<close> at time 0, so its \<^verbatim>\<open>visible_at\<close> is 1. At time
  2, with no ack and no nack in between, \<^verbatim>\<open>receive\<close> returns the task again, but not
  under a fresh lease: the update requires \<^verbatim>\<open>status < 10\<close>, the status is 50, and
  \<^verbatim>\<open>visible_at\<close> stays 1 where a fresh lease would make it 3.
\<close>

theorem expired_lease_not_renewed:
  "snd (enqueue example_config ''t1'' 0 ''x'' ''q'' 50 0 empty_store) =
     example_store [example_task ''t1'' ''q'' 50 0 0 0]
   \<and> receive 1 0 (\<lambda>_. 0) (example_store [example_task ''t1'' ''q'' 50 0 0 0]) =
     (Inr [Task ''t1'' ''x''], example_store [example_task ''t1'' ''q'' 50 50 1 0])
   \<and> receive 1 0 (\<lambda>_. 2) (example_store [example_task ''t1'' ''q'' 50 50 1 0]) =
     (Inr [Task ''t1'' ''x''], example_store [example_task ''t1'' ''q'' 50 50 1 0])"
  by (simp add: enqueue_def task_create_def enqueue_task_with_new_vq_def example_config_def
        DEFAULT_STATUS_def DEFAULT_HIDDEN_def Let_def eval_defs)

section \<open>Delayed tasks\<close>









end
